theory Spec2Isabelle
  imports Complex_Main "HOL-Library.Word" "HOL-Library.AList" "HOL-Library.Log_Nat"
begin

unbundle bit_operations_syntax

section \<open>Data model\<close>

text \<open>
  The Go server of mixcoin (\<^verbatim>\<open>src/mixcoin/server.go\<close>, \<^verbatim>\<open>src/mixcoin/mix.go\<close>).
  Go's \<^verbatim>\<open>int64\<close> nonce is a 64-bit word, since \<^verbatim>\<open>isFee\<close> combines it bitwise.
  Heights, deadlines, confirmation counts and amounts are integers; the server only
  compares them, and the one subtraction, in \<^verbatim>\<open>generateDelay\<close>, wraps around as
  Go's does. A \<^verbatim>\<open>btcwire.ShaHash\<close> is its 32 bytes.
\<close>

type_synonym int64 = "64 word"
type_synonym byte = "8 word"
type_synonym ShaHash = "byte list"

text \<open>
  \<^verbatim>\<open>ChunkMessage\<close> is declared outside the given sources; the server reads its fields
  \<^verbatim>\<open>Nonce\<close>, \<^verbatim>\<open>Fee\<close>, \<^verbatim>\<open>SendBy\<close> and \<^verbatim>\<open>MixAddr\<close>. The remaining fields follow the
  request fields listed in the specification (returnBy, outputAddress, warrant).
\<close>

record ChunkMessage =
  Nonce :: int64
  Fee :: int
  SendBy :: int
  ReturnBy :: int
  OutAddr :: string
  MixAddr :: string
  Warrant :: string

record Utxo =
  Addr :: string
  Amount :: int
  TxId :: string
  Index :: int

text \<open>
  \<^verbatim>\<open>btcjson.ListUnspentResult\<close>: its \<^verbatim>\<open>Amount\<close> is a \<^verbatim>\<open>float64\<close> in BTC, kept abstract
  (type \<open>'f\<close>) and read only through \<^verbatim>\<open>btcutil.NewAmount\<close>.
\<close>

record 'f ListUnspentResult =
  Result_TxId :: string
  Result_Vout :: nat
  Result_Address :: string
  Result_Amount :: 'f
  Result_Confirmations :: int

datatype PoolItem = ChunkItem ChunkMessage | UtxoItem Utxo

datatype PoolType = Receivable | Mixing | Reserve

text \<open>
  A Go call either returns or panics; \<^verbatim>\<open>log.Panicf\<close> logs and then panics. A panic
  that no deferred function recovers ends the process.
\<close>

datatype 'a outcome = Returned 'a | Panicked string

record Config =
  MinConfirmations :: int
  ChunkSize :: int

definition MAX_CONF :: int where
  "MAX_CONF = 9999"

section \<open>The fee decision\<close>

subsection \<open>The library parts \<^verbatim>\<open>isFee\<close> calls\<close>

text \<open>
  \<^verbatim>\<open>math/rand\<close> is a parameter: \<^verbatim>\<open>rand.NewSource(seed)\<close> builds a generator state from
  a seed, and \<^verbatim>\<open>Float64()\<close> draws a value and steps the state. Its documented
  range is the half-open interval [0.0, 1.0). A finite \<^verbatim>\<open>float64\<close> is the rational
  number it denotes.
\<close>

record 'g rand_lib =
  NewSource :: "int64 \<Rightarrow> 'g"
  Float64 :: "'g \<Rightarrow> rat \<times> 'g"

text \<open>\<^verbatim>\<open>big.Int.SetBytes\<close>: the bytes as a big-endian unsigned integer.\<close>

definition SetBytes :: "byte list \<Rightarrow> nat" where
  "SetBytes bs = foldl (\<lambda>acc b. acc * 256 + unat b) 0 bs"

text \<open>
  \<^verbatim>\<open>big.Int.Int64\<close> of a non-negative value: the low 64 bits, read as an \<^verbatim>\<open>int64\<close>
  (what the library computes when the value does not fit).
\<close>

definition Int64 :: "nat \<Rightarrow> int64" where
  "Int64 x = word_of_nat x"

text \<open>
  A finite nonzero \<^verbatim>\<open>float64\<close> is a pair \<open>(m, e)\<close> of a mantissa of at most 53 bits
  and an exponent, denoting \<open>m * 2 ^ e\<close>. \<open>round53\<close> is IEEE round-to-nearest,
  ties to even, of an exact \<open>m * 2 ^ e\<close>. The exponent range is not modelled: the
  products \<^verbatim>\<open>isFee\<close> forms lie between 1e-4 and 2^63 * 1e-4 in magnitude, or are zero.
\<close>

type_synonym float64 = "int \<times> int"

definition float64_val :: "float64 \<Rightarrow> rat" where
  "float64_val f =
     (case f of (m, e) \<Rightarrow>
        if 0 \<le> e then of_int m * 2 ^ nat e else of_int m / 2 ^ nat (- e))"

definition round53 :: "int \<times> int \<Rightarrow> float64" where
  "round53 x =
     (case x of (m, e) \<Rightarrow>
        let k = bitlen \<bar>m\<bar> - 53 in
        if k \<le> 0 then (m, e)
        else
          let q = \<bar>m\<bar> div 2 ^ nat k;
              r = \<bar>m\<bar> mod 2 ^ nat k;
              half = 2 ^ nat (k - 1);
              q' = (if half < r \<or> (r = half \<and> odd q) then q + 1 else q)
          in (sgn m * q', e + k))"

text \<open>The conversion \<^verbatim>\<open>float64(n)\<close> of an integer.\<close>

definition float64_of_int :: "int \<Rightarrow> float64" where
  "float64_of_int n = round53 (n, 0)"

definition float64_mul :: "float64 \<Rightarrow> float64 \<Rightarrow> float64" where
  "float64_mul a b = round53 (fst a * fst b, snd a + snd b)"

text \<open>The constant \<^verbatim>\<open>1.0e-4\<close> as a \<^verbatim>\<open>float64\<close>: the nearest one to 1/10000.\<close>

definition float64_1e_4 :: float64 where
  "float64_1e_4 = (7378697629483821, - 66)"

subsection \<open>\<^verbatim>\<open>isFee\<close> (server.go, lines 192-203)\<close>

definition isFee :: "'g rand_lib \<Rightarrow> int64 \<Rightarrow> ShaHash \<Rightarrow> int \<Rightarrow> bool" where
  "isFee lib nonce hash feeBips =
     (let bigIntHash = SetBytes hash;
          hashInt = Int64 bigIntHash;
          gen = nonce OR hashInt;
          fee = float64_mul (float64_of_int feeBips) float64_1e_4;
          source = NewSource lib gen;
          rng = Float64 lib source
      in fst rng \<le> float64_val fee)"

text \<open>
  \<^verbatim>\<open>math/rand\<close> itself is outside the sources. For concrete runs a stand-in takes its
  place: the state is a counter started at the seed, and a draw is an odd number of
  two-thousandths, a value strictly between 0 and 1. Its draws are not Go's.
\<close>

definition counter_rand :: "nat rand_lib" where
  "counter_rand =
     \<lparr>NewSource = (\<lambda>seed. unat seed),
      Float64 = (\<lambda>g. (of_nat (2 * (g mod 1000) + 1) / 2000, Suc g))\<rparr>"

definition zero_hash :: ShaHash where
  "zero_hash = replicate 32 0"

section \<open>The pool manager\<close>

text \<open>
  The pool manager's code is outside the given sources. A pool is the Go map from key
  to item, as an association list; the order of its entries stands for the iteration
  order Go leaves open.
\<close>

type_synonym Pool = "(string \<times> PoolItem) list"

record PoolManager =
  receivable :: Pool
  mixing :: Pool
  reserve :: Pool

definition pool_keys :: "Pool \<Rightarrow> string set" where
  "pool_keys p = fst ` set p"

text \<open>
  Modelled from the spec: the key derived from a pool item (missing: \<^verbatim>\<open>PoolItem.Key\<close>).
  Pool items are keyed by escrow address.
\<close>

definition Key :: "PoolItem \<Rightarrow> string" where
  "Key item = (case item of ChunkItem msg \<Rightarrow> MixAddr msg | UtxoItem u \<Rightarrow> Addr u)"

definition get_pool :: "PoolType \<Rightarrow> PoolManager \<Rightarrow> Pool" where
  "get_pool label p =
     (case label of Receivable \<Rightarrow> receivable p | Mixing \<Rightarrow> mixing p | Reserve \<Rightarrow> reserve p)"

definition set_pool :: "PoolType \<Rightarrow> Pool \<Rightarrow> PoolManager \<Rightarrow> PoolManager" where
  "set_pool label q p =
     (case label of
        Receivable \<Rightarrow> p\<lparr>receivable := q\<rparr>
      | Mixing \<Rightarrow> p\<lparr>mixing := q\<rparr>
      | Reserve \<Rightarrow> p\<lparr>reserve := q\<rparr>)"

text \<open>
  Modelled from the spec: \<^verbatim>\<open>Put(label, item)\<close> (missing: \<^verbatim>\<open>PoolManager.Put\<close>) inserts
  or overwrites under the item's derived key.
\<close>

definition Put :: "PoolType \<Rightarrow> PoolItem \<Rightarrow> PoolManager \<Rightarrow> PoolManager" where
  "Put label item p = set_pool label (AList.update (Key item) item (get_pool label p)) p"

text \<open>
  Modelled from the spec: \<^verbatim>\<open>ReceivingKeys()\<close> (missing: \<^verbatim>\<open>PoolManager.ReceivingKeys\<close>)
  is a snapshot of all escrow addresses currently awaiting deposit.
\<close>

definition ReceivingKeys :: "PoolManager \<Rightarrow> string list" where
  "ReceivingKeys p = map fst (receivable p)"

text \<open>
  Modelled from the spec: \<^verbatim>\<open>Scan(addresses)\<close> (missing: \<^verbatim>\<open>PoolManager.Scan\<close>) removes
  and returns the matching items of Receivable; unmatched addresses are skipped.
\<close>

fun Scan :: "string list \<Rightarrow> PoolManager \<Rightarrow> PoolItem list \<times> PoolManager" where
  "Scan [] p = ([], p)"
| "Scan (a # addrs) p =
     (case map_of (receivable p) a of
        None \<Rightarrow> Scan addrs p
      | Some item \<Rightarrow>
          (case Scan addrs (p\<lparr>receivable := AList.delete a (receivable p)\<rparr>) of
             (items, p') \<Rightarrow> (item # items, p')))"

text \<open>
  Modelled from the spec: \<^verbatim>\<open>Filter(predicate)\<close> (missing: \<^verbatim>\<open>PoolManager.Filter\<close>)
  removes the items for which the predicate is false, across the managed pools. The
  spec does not name the managed pools, so they are an argument. The predicate is Go
  code and may panic; the panic passes through.
\<close>

fun filter_pool :: "(PoolItem \<Rightarrow> bool outcome) \<Rightarrow> Pool \<Rightarrow> Pool outcome" where
  "filter_pool f [] = Returned []"
| "filter_pool f (entry # rest) =
     (case f (snd entry) of
        Panicked m \<Rightarrow> Panicked m
      | Returned keep \<Rightarrow>
          (case filter_pool f rest of
             Panicked m \<Rightarrow> Panicked m
           | Returned rest' \<Rightarrow> Returned (if keep then entry # rest' else rest')))"

fun Filter :: "PoolType list \<Rightarrow> (PoolItem \<Rightarrow> bool outcome) \<Rightarrow> PoolManager \<Rightarrow> PoolManager outcome" where
  "Filter [] f p = Returned p"
| "Filter (label # labels) f p =
     (case filter_pool f (get_pool label p) of
        Panicked m \<Rightarrow> Panicked m
      | Returned q \<Rightarrow> Filter labels f (set_pool label q p))"

text \<open>Every entry of a pool sits under the key derived from its item.\<close>

definition pool_wf :: "Pool \<Rightarrow> bool" where
  "pool_wf p = list_all (\<lambda>entry. fst entry = Key (snd entry)) p"

section \<open>The server\<close>

text \<open>
  The process-wide variables of server.go that the modelled functions read or write.
  \<open>mix\<close> holds the chunks handed to \<^verbatim>\<open>mix.Put\<close>, oldest first.
\<close>

record server_state =
  blockchainHeight :: int
  stopping :: bool
  pool :: PoolManager
  mix :: "ChunkMessage list"

text \<open>
  The collaborators whose code is outside the given sources, as parameters: the
  configuration, the pools \<^verbatim>\<open>Filter\<close> walks, \<^verbatim>\<open>btcutil.NewAmount\<close>, \<^verbatim>\<open>decodeAddress\<close>,
  the node's \<^verbatim>\<open>ListUnspentMinMaxAddresses\<close>, \<^verbatim>\<open>validateChunkMsg\<close> (which may read
  the process-wide variables), the result of this request's \<^verbatim>\<open>getNewAddress\<close> (an
  error, or the new address encoded) and \<^verbatim>\<open>signChunkMessage\<close>. A Go \<^verbatim>\<open>error\<close> is
  its message.
\<close>

record 'f env =
  cfg :: Config
  managed_pools :: "PoolType list"
  NewAmount :: "'f \<Rightarrow> string + int"
  decodeAddress :: "string \<Rightarrow> string + string"
  ListUnspentMinMaxAddresses ::
    "int \<Rightarrow> int \<Rightarrow> string option list \<Rightarrow> string + 'f ListUnspentResult list"
  validateChunkMsg :: "server_state \<Rightarrow> ChunkMessage \<Rightarrow> string option"
  getNewAddress :: "string + string"
  signChunkMessage :: "ChunkMessage \<Rightarrow> ChunkMessage"

subsection \<open>\<^verbatim>\<open>handleChunkRequest\<close> and \<^verbatim>\<open>registerNewChunk\<close> (lines 74-105)\<close>

definition registerNewChunk :: "string \<Rightarrow> ChunkMessage \<Rightarrow> server_state \<Rightarrow> server_state" where
  "registerNewChunk encodedAddr chunkMsg st =
     st\<lparr>pool := Put Receivable (ChunkItem chunkMsg) (pool st)\<rparr>"

text \<open>
  The steps of a request that reach outside the function, in the order they are made.
\<close>

datatype call = CallValidate | CallGetNewAddress | CallSign | CallPut PoolType

text \<open>
  The result is what the function returns (\<open>None\<close> for a \<^verbatim>\<open>nil\<close> error) or its panic,
  the chunk message behind the pointer, the process-wide variables, and the calls made.
  The \<^verbatim>\<open>return err\<close> after \<^verbatim>\<open>log.Panicf\<close> is never reached.
\<close>

definition handleChunkRequest ::
  "'f env \<Rightarrow> ChunkMessage \<Rightarrow> server_state \<Rightarrow>
     string option outcome \<times> ChunkMessage \<times> server_state \<times> call list" where
  "handleChunkRequest env chunkMsg st =
     (if stopping st then
        (Returned (Some ''refused request; mixcoin shutting down''), chunkMsg, st, [])
      else
        (case validateChunkMsg env st chunkMsg of
           Some err \<Rightarrow> (Returned (Some err), chunkMsg, st, [CallValidate])
         | None \<Rightarrow>
             (case getNewAddress env of
                Inl err \<Rightarrow>
                  (Panicked (''Unable to create new address: '' @ err), chunkMsg, st,
                   [CallValidate, CallGetNewAddress])
              | Inr encodedAddr \<Rightarrow>
                  (let chunkMsg1 = chunkMsg\<lparr>MixAddr := encodedAddr\<rparr>;
                       chunkMsg2 = signChunkMessage env chunkMsg1
                   in (Returned None, chunkMsg2,
                       registerNewChunk encodedAddr chunkMsg2 st,
                       [CallValidate, CallGetNewAddress, CallSign, CallPut Receivable])))))"

subsection \<open>\<^verbatim>\<open>prune\<close> (lines 117-122)\<close>

text \<open>
  The predicate handed to \<^verbatim>\<open>Filter\<close>: the type assertion \<^verbatim>\<open>item.(*ChunkMessage)\<close>
  panics on any other item.
\<close>

definition prune_predicate :: "server_state \<Rightarrow> PoolItem \<Rightarrow> bool outcome" where
  "prune_predicate st item =
     (case item of
        ChunkItem msg \<Rightarrow> Returned (SendBy msg \<le> blockchainHeight st)
      | UtxoItem u \<Rightarrow> Panicked ''interface conversion: PoolItem is not *ChunkMessage'')"

definition prune :: "'f env \<Rightarrow> server_state \<Rightarrow> server_state outcome" where
  "prune env st =
     (case Filter (managed_pools env) (prune_predicate st) (pool st) of
        Panicked m \<Rightarrow> Panicked m
      | Returned p \<Rightarrow> Returned (st\<lparr>pool := p\<rparr>))"

subsection \<open>\<^verbatim>\<open>isValidReceivedResult\<close> (lines 205-218)\<close>

text \<open>
  When \<^verbatim>\<open>btcutil.NewAmount\<close> fails the error is only logged, and the amount it
  returned with the error, zero, is used.
\<close>

definition isValidReceivedResult :: "'f env \<Rightarrow> 'f ListUnspentResult \<Rightarrow> bool" where
  "isValidReceivedResult env result =
     (let amountReceivedInt =
            (case NewAmount env (Result_Amount result) of Inl err \<Rightarrow> 0 | Inr a \<Rightarrow> a);
          hasConfirmations = (MinConfirmations (cfg env) \<le> Result_Confirmations result);
          hasAmount = (ChunkSize (cfg env) \<le> amountReceivedInt)
      in hasConfirmations \<and> hasAmount)"

subsection \<open>\<^verbatim>\<open>findTransactions\<close> (lines 124-190)\<close>

text \<open>
  The first loop: a failed decoding is logged and the \<^verbatim>\<open>nil\<close> address appended
  all the same.
\<close>

definition decodeAll :: "'f env \<Rightarrow> string list \<Rightarrow> string option list" where
  "decodeAll env addrs =
     map (\<lambda>addr. case decodeAddress env addr of Inl err \<Rightarrow> None | Inr decoded \<Rightarrow> Some decoded)
       addrs"

text \<open>
  The second loop builds the map \<^verbatim>\<open>received\<close> from address to utxo; a later valid
  result at the same address overwrites an earlier one.
\<close>

fun collectReceived ::
  "'f env \<Rightarrow> 'f ListUnspentResult list \<Rightarrow> (string \<times> Utxo) list \<Rightarrow> (string \<times> Utxo) list outcome" where
  "collectReceived env [] received = Returned received"
| "collectReceived env (result # rest) received =
     (if \<not> isValidReceivedResult env result then collectReceived env rest received
      else
        (case NewAmount env (Result_Amount result) of
           Inl err \<Rightarrow> Panicked (''invalid tx amount: '' @ err)
         | Inr amount \<Rightarrow>
             collectReceived env rest
               (AList.update (Result_Address result)
                  \<lparr>Addr = Result_Address result, Amount = amount,
                   TxId = Result_TxId result, Index = int (Result_Vout result)\<rparr>
                  received)))"

text \<open>
  The last loop routes each harvested chunk. The type assertion panics on an item that
  is no chunk message. A missing entry of \<^verbatim>\<open>received\<close> is a \<^verbatim>\<open>nil\<close> utxo, whose key
  \<^verbatim>\<open>Put\<close> cannot derive: a panic.
\<close>

fun routeChunks ::
  "'g rand_lib \<Rightarrow> ShaHash \<Rightarrow> (string \<times> Utxo) list \<Rightarrow> PoolItem list \<Rightarrow> server_state \<Rightarrow>
     server_state outcome" where
  "routeChunks lib blockHash received [] st = Returned st"
| "routeChunks lib blockHash received (item # items) st =
     (case item of
        UtxoItem u \<Rightarrow> Panicked ''interface conversion: PoolItem is not *ChunkMessage''
      | ChunkItem msg \<Rightarrow>
          (case map_of received (MixAddr msg) of
             None \<Rightarrow> Panicked ''invalid memory address or nil pointer dereference''
           | Some utxo \<Rightarrow>
               if isFee lib (Nonce msg) blockHash (Fee msg) then
                 routeChunks lib blockHash received items
                   (st\<lparr>pool := Put Reserve (UtxoItem utxo) (pool st)\<rparr>)
               else
                 routeChunks lib blockHash received items
                   (st\<lparr>pool := Put Mixing (UtxoItem utxo) (pool st), mix := mix st @ [msg]\<rparr>)))"

text \<open>
  The part of \<^verbatim>\<open>findTransactions\<close> after \<^verbatim>\<open>prune()\<close>: the query, the map of received
  utxos, the scan and the routing.
\<close>

definition harvest ::
  "'g rand_lib \<Rightarrow> 'f env \<Rightarrow> ShaHash \<Rightarrow> server_state \<Rightarrow> server_state outcome" where
  "harvest lib env blockHash st =
     (let minConf = MinConfirmations (cfg env);
          addrs = ReceivingKeys (pool st);
          receivableAddrs = decodeAll env addrs
      in case ListUnspentMinMaxAddresses env minConf MAX_CONF receivableAddrs of
           Inl err \<Rightarrow> Panicked (''error listing unspent by address: '' @ err)
         | Inr receivedByAddress \<Rightarrow>
             (case collectReceived env receivedByAddress [] of
                Panicked m \<Rightarrow> Panicked m
              | Returned received \<Rightarrow>
                  (let receivedAddrs = map fst received
                   in case Scan receivedAddrs (pool st) of
                        (chunkMsgs, p) \<Rightarrow>
                          routeChunks lib blockHash received chunkMsgs (st\<lparr>pool := p\<rparr>))))"

definition findTransactions ::
  "'g rand_lib \<Rightarrow> 'f env \<Rightarrow> ShaHash \<Rightarrow> int \<Rightarrow> server_state \<Rightarrow> server_state outcome" where
  "findTransactions lib env blockHash height st =
     (case prune env st of
        Panicked m \<Rightarrow> Panicked m
      | Returned st1 \<Rightarrow> harvest lib env blockHash st1)"

subsection \<open>\<^verbatim>\<open>onBlockConnected\<close> (lines 107-115)\<close>

text \<open>
  \<^verbatim>\<open>findTransactions\<close> runs in a goroutine of its own, which has no deferred
  \<^verbatim>\<open>recover\<close>: a panic in it ends the process. The goroutine is taken to finish
  before the next event.
\<close>

datatype process = Running server_state | Crashed string

definition onBlockConnected ::
  "'g rand_lib \<Rightarrow> 'f env \<Rightarrow> ShaHash \<Rightarrow> int \<Rightarrow> server_state \<Rightarrow> process" where
  "onBlockConnected lib env blockHash height st =
     (if stopping st then Running st
      else
        (let st1 = st\<lparr>blockchainHeight := height\<rparr>
         in case findTransactions lib env blockHash height st1 of
              Panicked m \<Rightarrow> Crashed m
            | Returned st' \<Rightarrow> Running st'))"

section \<open>The delay of a release\<close>

text \<open>
  \<^verbatim>\<open>generateDelay\<close> (mix.go, lines 25-34). Go's \<^verbatim>\<open>int\<close> has 64 bits: \<open>go_int\<close> is the
  wrap-around of its arithmetic. The result of \<^verbatim>\<open>getBlockchainHeight\<close> (an error, or
  the height) is a parameter, and so is \<^verbatim>\<open>randInt\<close>, whose code is outside the given
  sources: the argument stands for what this one call returns for a given bound.
\<close>

definition go_int :: "int \<Rightarrow> int" where
  "go_int x = sint (word_of_int x :: 64 word)"

definition generateDelay :: "string + int \<Rightarrow> (int \<Rightarrow> int) \<Rightarrow> int \<Rightarrow> int outcome" where
  "generateDelay getBlockchainHeight randInt returnBy =
     (case getBlockchainHeight of
        Inl err \<Rightarrow> Panicked (''error getting blockchain height: '' @ err)
      | Inr currHeight \<Rightarrow> Returned (randInt (go_int (go_int (returnBy - 1) - currHeight))))"

section \<open>The blockchain node and concrete runs\<close>

text \<open>
  Modelled from the spec: \<^verbatim>\<open>listUnspent(minConf, maxConf, addresses)\<close> (missing: the
  RPC client's \<^verbatim>\<open>ListUnspentMinMaxAddresses\<close>) returns the wallet's unspent outputs at
  the given addresses whose confirmation count lies within [minConf, maxConf].
\<close>

definition listUnspent ::
  "'f ListUnspentResult list \<Rightarrow> int \<Rightarrow> int \<Rightarrow> string option list \<Rightarrow>
     string + 'f ListUnspentResult list" where
  "listUnspent wallet minConf maxConf addresses =
     Inr (filter (\<lambda>r. minConf \<le> Result_Confirmations r \<and> Result_Confirmations r \<le> maxConf \<and>
                       Some (Result_Address r) \<in> set addresses) wallet)"

text \<open>The chunks a step handed to \<^verbatim>\<open>mix.Put\<close>: what it appended to \<open>mix\<close>.\<close>

definition handed_to_mix :: "server_state \<Rightarrow> server_state \<Rightarrow> ChunkMessage list" where
  "handed_to_mix st st' = drop (length (mix st)) (mix st')"

text \<open>The keys a pass removes from Receivable by pruning.\<close>

definition pruned_keys :: "'f env \<Rightarrow> server_state \<Rightarrow> string set" where
  "pruned_keys env st =
     (case prune env st of
        Panicked m \<Rightarrow> {}
      | Returned st1 \<Rightarrow> pool_keys (receivable (pool st)) - pool_keys (receivable (pool st1)))"

text \<open>The keys that are new in Mixing or Reserve after a step.\<close>

definition promoted_keys :: "server_state \<Rightarrow> server_state \<Rightarrow> string set" where
  "promoted_keys st st' =
     (pool_keys (mixing (pool st')) \<union> pool_keys (reserve (pool st')))
       - (pool_keys (mixing (pool st)) \<union> pool_keys (reserve (pool st)))"


text \<open>
  A concrete setting. A \<^verbatim>\<open>float64\<close> amount is a rational number of BTC, or \<open>None\<close>
  for one that is not a number; \<open>ex_NewAmount\<close> rounds to satoshi as
  \<^verbatim>\<open>btcutil.NewAmount\<close> does. Chunks are 0.01 BTC and need 6 confirmations. The
  request is the one of the specification's end-to-end example.
\<close>

definition ex_cfg :: Config where
  "ex_cfg = \<lparr>MinConfirmations = 6, ChunkSize = 1000000\<rparr>"

definition ex_NewAmount :: "rat option \<Rightarrow> string + int" where
  "ex_NewAmount f =
     (case f of
        None \<Rightarrow> Inl ''invalid bitcoin amount''
      | Some x \<Rightarrow>
          Inr (if x < 0 then \<lceil>x * 100000000 - 1 / 2\<rceil> else \<lfloor>x * 100000000 + 1 / 2\<rfloor>))"

definition ex_validate :: "server_state \<Rightarrow> ChunkMessage \<Rightarrow> string option" where
  "ex_validate st msg =
     (if Fee msg < 0 \<or> 10000 < Fee msg then Some ''fee rate out of range''
      else if SendBy msg \<le> blockchainHeight st then Some ''send-by height has passed''
      else None)"

definition ex_env ::
  "(int \<Rightarrow> int \<Rightarrow> string option list \<Rightarrow> string + rat option ListUnspentResult list) \<Rightarrow>
     string + string \<Rightarrow> rat option env" where
  "ex_env rpc newAddr =
     \<lparr>cfg = ex_cfg,
      managed_pools = [Receivable, Mixing, Reserve],
      NewAmount = ex_NewAmount,
      decodeAddress = Inr,
      ListUnspentMinMaxAddresses = rpc,
      validateChunkMsg = ex_validate,
      getNewAddress = newAddr,
      signChunkMessage = (\<lambda>msg. msg\<lparr>Warrant := ''signed''\<rparr>)\<rparr>"

definition ex_request :: ChunkMessage where
  "ex_request =
     \<lparr>Nonce = 1, Fee = 0, SendBy = 100, ReturnBy = 110, OutAddr = ''A'',
      MixAddr = [], Warrant = []\<rparr>"

definition ex_chunk :: "string \<Rightarrow> int \<Rightarrow> ChunkMessage" where
  "ex_chunk addr sendBy = ex_request\<lparr>SendBy := sendBy, MixAddr := addr, Warrant := ''signed''\<rparr>"

definition ex_state :: "int \<Rightarrow> bool \<Rightarrow> Pool \<Rightarrow> server_state" where
  "ex_state height stop r =
     \<lparr>blockchainHeight = height, stopping = stop,
      pool = \<lparr>receivable = r, mixing = [], reserve = []\<rparr>, mix = []\<rparr>"

definition ex_output :: "string \<Rightarrow> string \<Rightarrow> rat \<Rightarrow> int \<Rightarrow> rat option ListUnspentResult" where
  "ex_output txid addr btc confs =
     \<lparr>Result_TxId = txid, Result_Vout = 0, Result_Address = addr,
      Result_Amount = Some btc, Result_Confirmations = confs\<rparr>"

definition rpc_down :: "int \<Rightarrow> int \<Rightarrow> string option list \<Rightarrow> string + rat option ListUnspentResult list" where
  "rpc_down minConf maxConf addresses = Inl ''connection refused''"

text \<open>
  A pass at height 101 over three chunks: E (deadline 100) and F (deadline 101) survive
  the pruning and G (deadline 110) does not. The wallet lists an output of 0.001 BTC at E
  and one of 0.01 BTC at F; afterwards E is still receivable and F is in Mixing.
\<close>

definition ex_pool :: Pool where
  "ex_pool =
     [(''E'', ChunkItem (ex_chunk ''E'' 100)), (''F'', ChunkItem (ex_chunk ''F'' 101)),
      (''G'', ChunkItem (ex_chunk ''G'' 110))]"

definition ex_wallet :: "rat option ListUnspentResult list" where
  "ex_wallet = [ex_output ''t1'' ''E'' (1 / 1000) 6, ex_output ''t3'' ''F'' (1 / 100) 6]"

definition ex_utxo :: "string \<Rightarrow> string \<Rightarrow> Utxo" where
  "ex_utxo txid addr = \<lparr>Addr = addr, Amount = 1000000, TxId = txid, Index = 0\<rparr>"

definition ex_after :: server_state where
  "ex_after =
     \<lparr>blockchainHeight = 101, stopping = False,
      pool = \<lparr>receivable = [(''E'', ChunkItem (ex_chunk ''E'' 100))],
              mixing = [(''F'', UtxoItem (ex_utxo ''t3'' ''F''))],
              reserve = []\<rparr>,
      mix = [ex_chunk ''F'' 101]\<rparr>"



section \<open>Properties of the fee decision\<close>

lemma fee_at_10000: "float64_val (float64_mul (float64_of_int 10000) float64_1e_4) = 1"
  by (simp add: float64_val_def float64_mul_def float64_of_int_def float64_1e_4_def
      round53_def Let_def compute_bitlen)

lemma fee_at_0: "float64_val (float64_mul (float64_of_int 0) float64_1e_4) = 0"
  by (simp add: float64_val_def float64_mul_def float64_of_int_def float64_1e_4_def
      round53_def Let_def compute_bitlen)

lemma counter_rand_range:
  "0 < fst (Float64 counter_rand g) \<and> fst (Float64 counter_rand g) < 1"
  by (simp add: counter_rand_def)

text \<open>
  The constant is a 53-bit mantissa within half a unit in the last place of 1/10000.
\<close>

lemma float64_1e_4_nearest:
  "2 ^ 52 \<le> fst float64_1e_4 \<and> fst float64_1e_4 < 2 ^ 53 \<and>
   \<bar>float64_val float64_1e_4 - 1 / 10000\<bar> < 1 / 2 ^ 67"
  by (simp add: float64_1e_4_def float64_val_def)

text \<open>
  Of a hash of eight bytes or more, \<^verbatim>\<open>Int64\<close> keeps the last eight bytes.
\<close>

lemma SetBytes_append:
  "SetBytes (xs @ ys) = SetBytes xs * 256 ^ length ys + SetBytes ys"
proof (induction ys rule: rev_induct)
  case Nil
  then show ?case by (simp add: SetBytes_def)
next
  case (snoc y ys)
  have "SetBytes (xs @ ys @ [y]) = SetBytes (xs @ ys) * 256 + unat y"
    by (simp add: SetBytes_def)
  also have "\<dots> = (SetBytes xs * 256 ^ length ys + SetBytes ys) * 256 + unat y"
    by (simp add: snoc.IH)
  also have "\<dots> = SetBytes xs * 256 ^ length (ys @ [y]) + SetBytes (ys @ [y])"
    by (simp add: SetBytes_def algebra_simps)
  finally show ?case by simp
qed

lemma Int64_SetBytes_last8:
  assumes "length ys = 8"
  shows "Int64 (SetBytes (xs @ ys)) = Int64 (SetBytes ys)"
proof -
  have "(256::nat) ^ 8 = 2 ^ 64" by simp
  with assms have "SetBytes (xs @ ys) = SetBytes xs * 2 ^ 64 + SetBytes ys"
    by (simp add: SetBytes_append)
  then have "take_bit 64 (SetBytes (xs @ ys)) = take_bit 64 (SetBytes ys)"
    by (simp add: take_bit_eq_mod)
  then show ?thesis
    by (simp add: Int64_def word_of_nat_eq_iff)
qed

text \<open>
  What \<^verbatim>\<open>isFee\<close> computes at the two edge rates, whatever the generator: the
  \<^verbatim>\<open>float64\<close> product \<^verbatim>\<open>float64(0) * 1.0e-4\<close> is 0 and \<^verbatim>\<open>float64(10000) * 1.0e-4\<close> is
  exactly 1, and the draw is compared with \<^verbatim>\<open><=\<close>.
\<close>

lemma isFee_at_rate_0:
  "isFee lib nonce hash 0 \<longleftrightarrow>
     fst (Float64 lib (NewSource lib (nonce OR Int64 (SetBytes hash)))) \<le> 0"
  by (simp add: isFee_def Let_def fee_at_0)

lemma isFee_at_rate_10000:
  "isFee lib nonce hash 10000 \<longleftrightarrow>
     fst (Float64 lib (NewSource lib (nonce OR Int64 (SetBytes hash)))) \<le> 1"
  by (simp add: isFee_def Let_def fee_at_10000)

text \<open>
  C2. With a generator whose first draw after seeding lies strictly between 0 and 1:
  for every nonce and every block hash, \<^verbatim>\<open>isFee\<close> returns false at a fee rate of 0 and
  true at a fee rate of 10000.
\<close>

theorem isFee_edge_rates:
  assumes "\<forall>seed. 0 < fst (Float64 lib (NewSource lib seed)) \<and>
                  fst (Float64 lib (NewSource lib seed)) < 1"
  shows "\<not> isFee lib nonce hash 0 \<and> isFee lib nonce hash 10000"
proof -
  let ?x = "fst (Float64 lib (NewSource lib (nonce OR Int64 (SetBytes hash))))"
  from assms have "0 < ?x" and "?x < 1" by simp_all
  then show ?thesis
    by (simp add: isFee_at_rate_0 isFee_at_rate_10000)
qed

theorem isFee_edge_rates_witness:
  "(\<forall>seed. 0 < fst (Float64 counter_rand (NewSource counter_rand seed)) \<and>
           fst (Float64 counter_rand (NewSource counter_rand seed)) < 1) \<and>
   \<not> isFee counter_rand 5 zero_hash 0 \<and> isFee counter_rand 5 zero_hash 10000"
proof -
  have range: "\<forall>seed. 0 < fst (Float64 counter_rand (NewSource counter_rand seed)) \<and>
           fst (Float64 counter_rand (NewSource counter_rand seed)) < 1"
    by (simp add: counter_rand_range)
  from isFee_edge_rates [OF range, of 5 zero_hash] range show ?thesis by simp
qed


section \<open>Properties of request handling\<close>




text \<open>
  C8, as amended. When address generation fails, \<^verbatim>\<open>handleChunkRequest\<close> panics
  after validation: nothing is signed, nothing is put in a pool, and the chunk message
  and the process-wide variables are as before. When the query for unspent outputs
  fails, \<^verbatim>\<open>findTransactions\<close> panics at that first failure, after pruning and before any
  harvest; nothing is retried, and the panic in its goroutine ends the process.
\<close>

theorem failures_panic:
  "(\<not> stopping st \<and> validateChunkMsg env st chunkMsg = None \<and> getNewAddress env = Inl err \<longrightarrow>
      handleChunkRequest env chunkMsg st =
        (Panicked (''Unable to create new address: '' @ err), chunkMsg, st,
         [CallValidate, CallGetNewAddress])) \<and>
   (\<not> stopping st0 \<and> prune env (st0\<lparr>blockchainHeight := height\<rparr>) = Returned st1 \<and>
    ListUnspentMinMaxAddresses env (MinConfirmations (cfg env)) MAX_CONF
      (decodeAll env (ReceivingKeys (pool st1))) = Inl err' \<longrightarrow>
      onBlockConnected lib env blockHash height st0 =
        Crashed (''error listing unspent by address: '' @ err'))"
  by (simp add: handleChunkRequest_def onBlockConnected_def findTransactions_def harvest_def Let_def)

theorem failures_panic_witness:
  "handleChunkRequest (ex_env rpc_down (Inl ''wallet locked'')) ex_request (ex_state 90 False [])
     = (Panicked ''Unable to create new address: wallet locked'', ex_request, ex_state 90 False [],
        [CallValidate, CallGetNewAddress]) \<and>
   onBlockConnected counter_rand (ex_env rpc_down (Inl ''wallet locked'')) zero_hash 101
     (ex_state 100 False [(''E'', ChunkItem (ex_chunk ''E'' 100))])
     = Crashed ''error listing unspent by address: connection refused''"
proof -
  let ?env = "ex_env rpc_down (Inl ''wallet locked'')"
  let ?st0 = "ex_state 100 False [(''E'', ChunkItem (ex_chunk ''E'' 100))]"
  let ?st1 = "ex_state 101 False [(''E'', ChunkItem (ex_chunk ''E'' 100))]"
  have a1: "\<not> stopping (ex_state 90 False [])"
    by (simp add: ex_state_def)
  have a2: "validateChunkMsg ?env (ex_state 90 False []) ex_request = None"
    by (simp add: ex_env_def ex_validate_def ex_request_def ex_state_def)
  have a3: "getNewAddress ?env = Inl ''wallet locked''"
    by (simp add: ex_env_def)
  have b1: "\<not> stopping ?st0"
    by (simp add: ex_state_def)
  have b2: "prune ?env (?st0\<lparr>blockchainHeight := 101\<rparr>) = Returned ?st1"
    by code_simp
  have b3: "ListUnspentMinMaxAddresses ?env (MinConfirmations (cfg ?env)) MAX_CONF
      (decodeAll ?env (ReceivingKeys (pool ?st1))) = Inl ''connection refused''"
    by (simp add: ex_env_def rpc_down_def)
  from failures_panic [of "ex_state 90 False []" ?env ex_request "''wallet locked''"
      ?st0 101 ?st1 "''connection refused''" counter_rand zero_hash]
    a1 a2 a3 b1 b2 b3
  show ?thesis by simp
qed

text \<open>
  C8 as stated fails: with the node unreachable, the block-connected event ends the
  process.
\<close>

theorem rpc_failure_counterexample:
  "onBlockConnected counter_rand (ex_env rpc_down (Inr ''E'')) zero_hash 101
     (ex_state 100 False [(''E'', ChunkItem (ex_chunk ''E'' 100))])
   = Crashed ''error listing unspent by address: connection refused''"
  by code_simp

section \<open>Properties of the pool operations and of pruning\<close>

lemma get_pool_set_pool:
  "get_pool l (set_pool label q p) = (if l = label then q else get_pool l p)"
  by (cases l; cases label) (simp_all add: get_pool_def set_pool_def)

lemma receivable_get_pool: "receivable p = get_pool Receivable p"
  by (simp add: get_pool_def)

text \<open>\<^verbatim>\<open>Filter\<close> keeps exactly the items for which the predicate returns true.\<close>

lemma filter_pool_Returned:
  "filter_pool f p = Returned q \<Longrightarrow> q = filter (\<lambda>entry. f (snd entry) = Returned True) p"
proof (induction p arbitrary: q)
  case Nil
  then show ?case by simp
next
  case (Cons entry rest)
  then show ?case
    by (auto split: outcome.splits if_splits)
qed

lemma Filter_Returned:
  "Filter labels f p = Returned p' \<Longrightarrow>
   get_pool l p' =
     (if l \<in> set labels then filter (\<lambda>entry. f (snd entry) = Returned True) (get_pool l p)
      else get_pool l p)"
proof (induction labels arbitrary: p)
  case Nil
  then show ?case by simp
next
  case (Cons label labels)
  from Cons.prems obtain q where
    q: "filter_pool f (get_pool label p) = Returned q" and
    rest: "Filter labels f (set_pool label q p) = Returned p'"
    by (auto split: outcome.splits)
  from filter_pool_Returned [OF q]
  have q_eq: "q = filter (\<lambda>entry. f (snd entry) = Returned True) (get_pool label p)" .
  from Cons.IH [OF rest] show ?case
    by (simp add: get_pool_set_pool q_eq)
qed

lemma prune_Returned:
  assumes "prune env st = Returned st'"
  shows "blockchainHeight st' = blockchainHeight st" "stopping st' = stopping st"
    "mix st' = mix st"
    "get_pool l (pool st') =
       (if l \<in> set (managed_pools env)
        then filter (\<lambda>entry. prune_predicate st (snd entry) = Returned True) (get_pool l (pool st))
        else get_pool l (pool st))"
proof -
  from assms obtain p where
    p: "Filter (managed_pools env) (prune_predicate st) (pool st) = Returned p" and
    st': "st' = st\<lparr>pool := p\<rparr>"
    by (auto simp: prune_def split: outcome.splits)
  from st' show "blockchainHeight st' = blockchainHeight st" "stopping st' = stopping st"
    "mix st' = mix st" by simp_all
  from Filter_Returned [OF p, of l] st'
  show "get_pool l (pool st') =
       (if l \<in> set (managed_pools env)
        then filter (\<lambda>entry. prune_predicate st (snd entry) = Returned True) (get_pool l (pool st))
        else get_pool l (pool st))" by simp
qed

text \<open>
  What \<^verbatim>\<open>prune\<close> does with this \<^verbatim>\<open>Filter\<close>: a chunk whose deadline is at or below the
  current height stays in Receivable, and a chunk that is left has such a deadline.
\<close>

lemma prune_never_removes_expired:
  assumes "prune env st = Returned st'"
    and "(a, ChunkItem msg) \<in> set (receivable (pool st))"
    and "SendBy msg \<le> blockchainHeight st"
  shows "(a, ChunkItem msg) \<in> set (receivable (pool st')) \<and> a \<in> set (ReceivingKeys (pool st'))"
proof -
  have "(a, ChunkItem msg) \<in> set (receivable (pool st'))"
    using assms(2,3) prune_Returned(4) [OF assms(1), of Receivable]
    by (auto simp: receivable_get_pool prune_predicate_def)
  then show ?thesis by (force simp: ReceivingKeys_def)
qed

lemma prune_removes_unexpired:
  assumes "prune env st = Returned st'"
    and "Receivable \<in> set (managed_pools env)"
    and "(a, ChunkItem msg) \<in> set (receivable (pool st'))"
  shows "SendBy msg \<le> blockchainHeight st"
  using assms(2,3) prune_Returned(4) [OF assms(1), of Receivable]
  by (auto simp: receivable_get_pool prune_predicate_def)

text \<open>
  C1, at the failing input. At height 101 the pool holds chunk E with deadline 100,
  which has passed, and chunk F with deadline 110, which has not. \<^verbatim>\<open>prune\<close> keeps E
  and removes F: the predicate \<^verbatim>\<open>msg.SendBy <= blockchainHeight\<close> is true of the expired
  chunk, and \<^verbatim>\<open>Filter\<close> removes the items for which it is false.
\<close>

theorem prune_keeps_expired_chunk:
  "prune (ex_env rpc_down (Inr ''E''))
     (ex_state 101 False
        [(''E'', ChunkItem (ex_chunk ''E'' 100)), (''F'', ChunkItem (ex_chunk ''F'' 110))])
   = Returned (ex_state 101 False [(''E'', ChunkItem (ex_chunk ''E'' 100))])"
  by code_simp

section \<open>Properties of block scanning\<close>

lemma pool_keys_dom: "pool_keys p = dom (map_of p)"
  by (simp add: pool_keys_def dom_map_of_conv_image_fst)

lemma pool_keys_update: "pool_keys (AList.update k v p) = insert k (pool_keys p)"
  by (simp add: pool_keys_dom update_conv')

lemma Put_get_pool:
  "get_pool l (Put label item p) =
     (if l = label then AList.update (Key item) item (get_pool l p) else get_pool l p)"
  by (simp add: Put_def get_pool_set_pool)

lemma mixing_get_pool: "mixing p = get_pool Mixing p"
  by (simp add: get_pool_def)

lemma reserve_get_pool: "reserve p = get_pool Reserve p"
  by (simp add: get_pool_def)

text \<open>What the map of received utxos holds, and what it leaves out.\<close>

lemma collectReceived_sound:
  assumes "collectReceived env results acc = Returned received"
    and "map_of received k = Some u"
  shows "map_of acc k = Some u \<or>
         (Addr u = k \<and> (\<exists>r\<in>set results. Result_Address r = k \<and> isValidReceivedResult env r))"
  using assms
proof (induction results arbitrary: acc)
  case Nil
  then show ?case by simp
next
  case (Cons result rest)
  show ?case
  proof (cases "isValidReceivedResult env result")
    case False
    with Cons.prems have "collectReceived env rest acc = Returned received" by simp
    from Cons.IH [OF this Cons.prems(2)] show ?thesis by auto
  next
    case True
    with Cons.prems(1) obtain amount where
      rest: "collectReceived env rest
               (AList.update (Result_Address result)
                  \<lparr>Addr = Result_Address result, Amount = amount,
                   TxId = Result_TxId result, Index = int (Result_Vout result)\<rparr> acc)
             = Returned received"
      by (auto split: sum.splits)
    from Cons.IH [OF rest Cons.prems(2)] True
    show ?thesis by (auto simp: update_conv' split: if_splits)
  qed
qed



text \<open>What \<^verbatim>\<open>Scan\<close> returns and what it leaves in the pools.\<close>

lemma Scan_Returned:
  assumes "Scan addrs p = (items, p')"
  shows "mixing p' = mixing p" "reserve p' = reserve p"
    "map_of (receivable p') = (\<lambda>a. if a \<in> set addrs then None else map_of (receivable p) a)"
    "\<forall>item\<in>set items. \<exists>a\<in>set addrs. map_of (receivable p) a = Some item"
  using assms
proof (induction addrs arbitrary: p items)
  case Nil
  {
    case 1 then show ?case by simp
  next
    case 2 then show ?case by simp
  next
    case 3 then show ?case by auto
  next
    case 4 then show ?case by simp
  }
next
  case (Cons a addrs)
  {
    case 1
    then show ?case using Cons.IH(1) by (auto split: option.splits prod.splits)
  next
    case 2
    then show ?case using Cons.IH(2) by (auto split: option.splits prod.splits)
  next
    case 3
    show ?case
    proof (cases "map_of (receivable p) a")
      case None
      with 3 have "Scan addrs p = (items, p')" by simp
      from Cons.IH(3) [OF this] None show ?thesis by auto
    next
      case (Some item)
      with 3 obtain items0 where
        rest: "Scan addrs (p\<lparr>receivable := AList.delete a (receivable p)\<rparr>) = (items0, p')"
        by (auto split: prod.splits)
      from Cons.IH(3) [OF rest] show ?thesis by (auto simp: delete_conv')
    qed
  next
    case 4
    show ?case
    proof (cases "map_of (receivable p) a")
      case None
      with 4 have "Scan addrs p = (items, p')" by simp
      from Cons.IH(4) [OF this] show ?thesis by auto
    next
      case (Some item)
      with 4 obtain items0 where
        rest: "Scan addrs (p\<lparr>receivable := AList.delete a (receivable p)\<rparr>) = (items0, p')" and
        items: "items = item # items0"
        by (auto split: prod.splits)
      from Cons.IH(4) [OF rest] have
        "\<forall>i\<in>set items0. \<exists>b\<in>set addrs. map_of (receivable p) b = Some i"
        by (auto simp: delete_conv' split: if_splits)
      with Some items show ?thesis by auto
    qed
  }
qed


text \<open>The routing loop, one harvested chunk at a time.\<close>

lemma Put_fields:
  "receivable (Put Reserve item p) = receivable p"
  "receivable (Put Mixing item p) = receivable p"
  "mixing (Put Reserve item p) = mixing p"
  "reserve (Put Mixing item p) = reserve p"
  "reserve (Put Reserve item p) = AList.update (Key item) item (reserve p)"
  "mixing (Put Mixing item p) = AList.update (Key item) item (mixing p)"
  "receivable (Put Receivable item p) = AList.update (Key item) item (receivable p)"
  "mixing (Put Receivable item p) = mixing p"
  "reserve (Put Receivable item p) = reserve p"
  by (simp_all add: Put_def set_pool_def get_pool_def)

lemma routeChunks_Cons:
  assumes "routeChunks lib bh received (item # items) st = Returned st'"
  obtains st1 msg utxo where
    "item = ChunkItem msg" and
    "map_of received (MixAddr msg) = Some utxo" and
    "routeChunks lib bh received items st1 = Returned st'" and
    "receivable (pool st1) = receivable (pool st)" and
    "blockchainHeight st1 = blockchainHeight st" and
    "stopping st1 = stopping st" and
    "pool_keys (mixing (pool st1)) \<union> pool_keys (reserve (pool st1))
       = insert (Addr utxo) (pool_keys (mixing (pool st)) \<union> pool_keys (reserve (pool st)))" and
    "mix st1 = mix st \<or> mix st1 = mix st @ [msg]"
proof -
  from assms obtain msg utxo where
    item: "item = ChunkItem msg" and
    utxo: "map_of received (MixAddr msg) = Some utxo"
    by (auto split: PoolItem.splits option.splits)
  define st1 where
    "st1 = (if isFee lib (Nonce msg) bh (Fee msg)
            then st\<lparr>pool := Put Reserve (UtxoItem utxo) (pool st)\<rparr>
            else st\<lparr>pool := Put Mixing (UtxoItem utxo) (pool st), mix := mix st @ [msg]\<rparr>)"
  from assms item utxo have rest: "routeChunks lib bh received items st1 = Returned st'"
    by (auto simp: st1_def split: if_splits)
  have "receivable (pool st1) = receivable (pool st)"
    "blockchainHeight st1 = blockchainHeight st"
    "stopping st1 = stopping st"
    "pool_keys (mixing (pool st1)) \<union> pool_keys (reserve (pool st1))
       = insert (Addr utxo) (pool_keys (mixing (pool st)) \<union> pool_keys (reserve (pool st)))"
    "mix st1 = mix st \<or> mix st1 = mix st @ [msg]"
    by (simp_all add: st1_def Put_fields pool_keys_update Key_def)
  with item utxo rest show thesis by (rule that)
qed

lemma routeChunks_frame:
  assumes "routeChunks lib bh received items st = Returned st'"
  shows "receivable (pool st') = receivable (pool st) \<and>
         blockchainHeight st' = blockchainHeight st \<and> stopping st' = stopping st"
  using assms
proof (induction items arbitrary: st)
  case Nil
  then show ?case by simp
next
  case (Cons item items)
  from Cons.prems show ?case
  proof (rule routeChunks_Cons)
    fix st1 msg utxo
    assume "routeChunks lib bh received items st1 = Returned st'"
      and "receivable (pool st1) = receivable (pool st)"
      and "blockchainHeight st1 = blockchainHeight st"
      and "stopping st1 = stopping st"
    with Cons.IH [of st1] show ?thesis by simp
  qed
qed

lemma routeChunks_keys:
  assumes "routeChunks lib bh received items st = Returned st'"
  shows "pool_keys (mixing (pool st')) \<union> pool_keys (reserve (pool st'))
       \<subseteq> pool_keys (mixing (pool st)) \<union> pool_keys (reserve (pool st)) \<union>
          {Addr u |u m. ChunkItem m \<in> set items \<and> map_of received (MixAddr m) = Some u}"
  using assms
proof (induction items arbitrary: st)
  case Nil
  then show ?case by simp
next
  case (Cons item items)
  let ?S = "\<lambda>items. {Addr u |u m. ChunkItem m \<in> set items \<and> map_of received (MixAddr m) = Some u}"
  from Cons.prems show ?case
  proof (rule routeChunks_Cons)
    fix st1 msg utxo
    assume item: "item = ChunkItem msg"
      and utxo: "map_of received (MixAddr msg) = Some utxo"
      and rest: "routeChunks lib bh received items st1 = Returned st'"
      and keys: "pool_keys (mixing (pool st1)) \<union> pool_keys (reserve (pool st1))
         = insert (Addr utxo) (pool_keys (mixing (pool st)) \<union> pool_keys (reserve (pool st)))"
    have "ChunkItem msg \<in> set (item # items)" using item by simp
    with utxo have here: "Addr utxo \<in> ?S (item # items)" by blast
    have mono: "?S items \<subseteq> ?S (item # items)"
    proof
      fix x assume "x \<in> ?S items"
      then obtain u m where "x = Addr u" "ChunkItem m \<in> set items" "map_of received (MixAddr m) = Some u"
        by blast
      then have "x = Addr u \<and> ChunkItem m \<in> set (item # items) \<and> map_of received (MixAddr m) = Some u"
        by simp
      then show "x \<in> ?S (item # items)" by blast
    qed
    from Cons.IH [OF rest] have
      "pool_keys (mixing (pool st')) \<union> pool_keys (reserve (pool st'))
         \<subseteq> (pool_keys (mixing (pool st1)) \<union> pool_keys (reserve (pool st1))) \<union> ?S items" .
    then have "pool_keys (mixing (pool st')) \<union> pool_keys (reserve (pool st'))
         \<subseteq> insert (Addr utxo) (pool_keys (mixing (pool st)) \<union> pool_keys (reserve (pool st))) \<union> ?S items"
      by (simp only: keys)
    with here mono show ?thesis by blast
  qed
qed


lemma harvest_Returned:
  assumes "harvest lib env bh st = Returned st'"
  obtains results received chunkMsgs p where
    "ListUnspentMinMaxAddresses env (MinConfirmations (cfg env)) MAX_CONF
       (decodeAll env (ReceivingKeys (pool st))) = Inr results" and
    "collectReceived env results [] = Returned received" and
    "Scan (map fst received) (pool st) = (chunkMsgs, p)" and
    "routeChunks lib bh received chunkMsgs (st\<lparr>pool := p\<rparr>) = Returned st'"
  using assms
  by (auto simp: harvest_def Let_def split: sum.splits outcome.splits prod.splits)

lemma findTransactions_Returned:
  assumes "findTransactions lib env bh h st = Returned st'"
  obtains st1 where "prune env st = Returned st1" and "harvest lib env bh st1 = Returned st'"
  using assms by (auto simp: findTransactions_def split: outcome.splits)

lemma harvest_promoted:
  assumes run: "harvest lib env bh st = Returned st'"
    and new: "a \<in> promoted_keys st st'"
  shows "\<exists>results msg k.
           ListUnspentMinMaxAddresses env (MinConfirmations (cfg env)) MAX_CONF
             (decodeAll env (ReceivingKeys (pool st))) = Inr results \<and>
           (\<exists>r\<in>set results. Result_Address r = a \<and> isValidReceivedResult env r) \<and>
           map_of (receivable (pool st)) k = Some (ChunkItem msg) \<and> MixAddr msg = a"
proof -
  from run obtain results received chunkMsgs p where
    rpc: "ListUnspentMinMaxAddresses env (MinConfirmations (cfg env)) MAX_CONF
       (decodeAll env (ReceivingKeys (pool st))) = Inr results" and
    coll: "collectReceived env results [] = Returned received" and
    scan: "Scan (map fst received) (pool st) = (chunkMsgs, p)" and
    route: "routeChunks lib bh received chunkMsgs (st\<lparr>pool := p\<rparr>) = Returned st'"
    by (rule harvest_Returned)
  from Scan_Returned(1,2) [OF scan] have same: "mixing p = mixing (pool st)" "reserve p = reserve (pool st)" .
  from routeChunks_keys [OF route] same have
    "pool_keys (mixing (pool st')) \<union> pool_keys (reserve (pool st'))
       \<subseteq> pool_keys (mixing (pool st)) \<union> pool_keys (reserve (pool st)) \<union>
          {Addr u |u m. ChunkItem m \<in> set chunkMsgs \<and> map_of received (MixAddr m) = Some u}"
    by simp
  with new obtain u m where
    a: "a = Addr u" and m: "ChunkItem m \<in> set chunkMsgs" and u: "map_of received (MixAddr m) = Some u"
    unfolding promoted_keys_def by blast
  from collectReceived_sound [OF coll u] have
    addr: "Addr u = MixAddr m" and
    valid: "\<exists>r\<in>set results. Result_Address r = MixAddr m \<and> isValidReceivedResult env r"
    by simp_all
  from Scan_Returned(4) [OF scan] m obtain k where
    "map_of (receivable (pool st)) k = Some (ChunkItem m)" by blast
  with rpc a addr valid show ?thesis by auto
qed

lemma pool_keys_filter: "pool_keys (filter P p) \<subseteq> pool_keys p"
  by (auto simp: pool_keys_def)

lemma prune_keys_subset:
  assumes "prune env st = Returned st1"
  shows "pool_keys (get_pool l (pool st1)) \<subseteq> pool_keys (get_pool l (pool st))"
  using prune_Returned(4) [OF assms, of l] pool_keys_filter
  by (auto split: if_splits)

lemma prune_promoted_subset:
  assumes "prune env st = Returned st1"
  shows "promoted_keys st st' \<subseteq> promoted_keys st1 st'"
  using prune_keys_subset [OF assms, of Mixing] prune_keys_subset [OF assms, of Reserve]
  unfolding promoted_keys_def mixing_get_pool reserve_get_pool by blast

lemma prune_wf:
  assumes "prune env st = Returned st1" and "pool_wf (receivable (pool st))"
  shows "pool_wf (receivable (pool st1))"
  using prune_Returned(4) [OF assms(1), of Receivable] assms(2)
  by (auto simp: receivable_get_pool pool_wf_def list_all_iff split: if_splits)

lemma pool_wf_lookup:
  assumes "pool_wf p" and "map_of p k = Some item"
  shows "k = Key item"
  using assms map_of_SomeD [of p k item]
  by (auto simp: pool_wf_def list_all_iff)

text \<open>
  Receivable entries sit under the key derived from their item: this holds of the empty
  pool and is kept by a request and by a pass over a block.
\<close>

lemma pool_wf_update: "pool_wf p \<Longrightarrow> pool_wf (AList.update (Key item) item p)"
  by (induction p) (auto simp: pool_wf_def)

lemma handleChunkRequest_wf:
  assumes "handleChunkRequest env chunkMsg st = (res, chunkMsg', st', calls)"
    and "pool_wf (receivable (pool st))"
  shows "pool_wf (receivable (pool st'))"
  using assms
  by (auto simp: handleChunkRequest_def registerNewChunk_def Put_fields pool_wf_update Let_def
      split: if_splits option.splits sum.splits)

lemma Scan_wf:
  "Scan addrs p = (items, p') \<Longrightarrow> pool_wf (receivable p) \<Longrightarrow> pool_wf (receivable p')"
proof (induction addrs arbitrary: p items)
  case Nil
  then show ?case by simp
next
  case (Cons a addrs)
  have del: "pool_wf (AList.delete a (receivable p))"
    using Cons.prems(2) by (auto simp: pool_wf_def list_all_iff AList.delete_eq)
  show ?case
  proof (cases "map_of (receivable p) a")
    case None
    with Cons.prems have "Scan addrs p = (items, p')" by simp
    from Cons.IH [OF this Cons.prems(2)] show ?thesis .
  next
    case (Some item)
    with Cons.prems(1) obtain items0 where
      "Scan addrs (p\<lparr>receivable := AList.delete a (receivable p)\<rparr>) = (items0, p')"
      by (auto split: prod.splits)
    from Cons.IH [OF this] del show ?thesis by simp
  qed
qed

lemma findTransactions_wf:
  assumes "findTransactions lib env bh h st = Returned st'"
    and "pool_wf (receivable (pool st))"
  shows "pool_wf (receivable (pool st'))"
proof -
  from assms(1) obtain st1 where
    pr: "prune env st = Returned st1" and hv: "harvest lib env bh st1 = Returned st'"
    by (rule findTransactions_Returned)
  from hv obtain results received chunkMsgs p where
    scan: "Scan (map fst received) (pool st1) = (chunkMsgs, p)" and
    route: "routeChunks lib bh received chunkMsgs (st1\<lparr>pool := p\<rparr>) = Returned st'"
    by (rule harvest_Returned)
  from Scan_wf [OF scan prune_wf [OF pr assms(2)]] routeChunks_frame [OF route]
  show ?thesis by simp
qed

text \<open>
  C5. With a node that answers \<^verbatim>\<open>listUnspent\<close> as the specification describes, a key
  that a pass of \<^verbatim>\<open>findTransactions\<close> newly puts in Mixing or Reserve (a chunk promoted
  out of Receivable) is the address of an unspent output of the wallet whose confirmation
  count is at least \<^verbatim>\<open>MinConfirmations\<close> and at most \<^verbatim>\<open>MAX_CONF\<close>.
\<close>

theorem promoted_only_within_confirmation_window:
  assumes rpc: "ListUnspentMinMaxAddresses env = listUnspent wallet"
    and run: "findTransactions lib env blockHash height st = Returned st'"
    and new: "a \<in> promoted_keys st st'"
  shows "\<exists>r\<in>set wallet. Result_Address r = a \<and>
           MinConfirmations (cfg env) \<le> Result_Confirmations r \<and>
           Result_Confirmations r \<le> MAX_CONF"
proof -
  from run obtain st1 where
    pr: "prune env st = Returned st1" and hv: "harvest lib env blockHash st1 = Returned st'"
    by (rule findTransactions_Returned)
  from new prune_promoted_subset [OF pr] have "a \<in> promoted_keys st1 st'" by blast
  from harvest_promoted [OF hv this] obtain results r where
    res: "ListUnspentMinMaxAddresses env (MinConfirmations (cfg env)) MAX_CONF
             (decodeAll env (ReceivingKeys (pool st1))) = Inr results" and
    r: "r \<in> set results" "Result_Address r = a"
    by blast
  from res rpc r(1) have
    "r \<in> set wallet \<and> MinConfirmations (cfg env) \<le> Result_Confirmations r \<and>
     Result_Confirmations r \<le> MAX_CONF"
    by (auto simp: listUnspent_def)
  with r(2) show ?thesis by blast
qed

theorem promoted_only_within_confirmation_window_witness:
  "findTransactions counter_rand (ex_env (listUnspent ex_wallet) (Inr ''E'')) zero_hash 101
     (ex_state 101 False ex_pool) = Returned ex_after \<and>
   ''F'' \<in> promoted_keys (ex_state 101 False ex_pool) ex_after \<and>
   (\<exists>r\<in>set ex_wallet. Result_Address r = ''F'' \<and>
      MinConfirmations (cfg (ex_env (listUnspent ex_wallet) (Inr ''E''))) \<le> Result_Confirmations r \<and>
      Result_Confirmations r \<le> MAX_CONF)"
proof -
  let ?env = "ex_env (listUnspent ex_wallet) (Inr ''E'')"
  have rpc: "ListUnspentMinMaxAddresses ?env = listUnspent ex_wallet"
    by (simp add: ex_env_def)
  have run: "findTransactions counter_rand ?env zero_hash 101 (ex_state 101 False ex_pool)
               = Returned ex_after"
    by code_simp
  have new: "''F'' \<in> promoted_keys (ex_state 101 False ex_pool) ex_after"
    by code_simp
  from promoted_only_within_confirmation_window [OF rpc run new] run new
  show ?thesis by simp
qed

text \<open>
  C6. A block-connected event either does nothing (the service is shutting down), or
  it prunes first and runs the query, the scan and the routing on the pruned state; every
  key it promotes to Mixing or Reserve is a key of Receivable that survived the pruning,
  so no key is both pruned and promoted in the pass.
\<close>

theorem prune_before_harvest:
  assumes wf: "pool_wf (receivable (pool st))"
    and run: "onBlockConnected lib env blockHash height st = Running st'"
  shows "((stopping st \<and> st' = st) \<or>
          (\<exists>st1. prune env (st\<lparr>blockchainHeight := height\<rparr>) = Returned st1 \<and>
                 harvest lib env blockHash st1 = Returned st' \<and>
                 promoted_keys st st' \<subseteq> pool_keys (receivable (pool st1)))) \<and>
         pruned_keys env (st\<lparr>blockchainHeight := height\<rparr>) \<inter> promoted_keys st st' = {}"
proof (cases "stopping st")
  case True
  with run have "st' = st" by (simp add: onBlockConnected_def)
  with True show ?thesis by (simp add: promoted_keys_def)
next
  case False
  let ?st0 = "st\<lparr>blockchainHeight := height\<rparr>"
  from False run have "findTransactions lib env blockHash height ?st0 = Returned st'"
    by (simp add: onBlockConnected_def Let_def split: outcome.splits)
  then obtain st1 where
    pr: "prune env ?st0 = Returned st1" and hv: "harvest lib env blockHash st1 = Returned st'"
    by (rule findTransactions_Returned)
  from wf have wf0: "pool_wf (receivable (pool ?st0))" by simp
  from prune_wf [OF pr wf0] have wf1: "pool_wf (receivable (pool st1))" .
  have same: "promoted_keys st st' = promoted_keys ?st0 st'"
    by (simp add: promoted_keys_def)
  have sub: "promoted_keys st st' \<subseteq> pool_keys (receivable (pool st1))"
  proof
    fix a assume "a \<in> promoted_keys st st'"
    with same prune_promoted_subset [OF pr] have "a \<in> promoted_keys st1 st'" by blast
    from harvest_promoted [OF hv this] obtain msg k where
      look: "map_of (receivable (pool st1)) k = Some (ChunkItem msg)" and a: "MixAddr msg = a"
      by blast
    from pool_wf_lookup [OF wf1 look] a have "k = a" by (simp add: Key_def)
    with look show "a \<in> pool_keys (receivable (pool st1))"
      by (auto simp: pool_keys_dom)
  qed
  from pr have "pruned_keys env ?st0 \<inter> pool_keys (receivable (pool st1)) = {}"
    by (auto simp: pruned_keys_def)
  with sub have "pruned_keys env ?st0 \<inter> promoted_keys st st' = {}" by blast
  with pr hv sub show ?thesis by blast
qed

theorem prune_before_harvest_witness:
  "pool_wf (receivable (pool (ex_state 100 False ex_pool))) \<and>
   onBlockConnected counter_rand (ex_env (listUnspent ex_wallet) (Inr ''E'')) zero_hash 101
     (ex_state 100 False ex_pool) = Running ex_after \<and>
   pruned_keys (ex_env (listUnspent ex_wallet) (Inr ''E'')) ((ex_state 100 False ex_pool)\<lparr>blockchainHeight := 101\<rparr>)
     = {''G''} \<and>
   promoted_keys (ex_state 100 False ex_pool) ex_after = {''F''} \<and>
   pruned_keys (ex_env (listUnspent ex_wallet) (Inr ''E'')) ((ex_state 100 False ex_pool)\<lparr>blockchainHeight := 101\<rparr>)
     \<inter> promoted_keys (ex_state 100 False ex_pool) ex_after = {}"
proof -
  let ?env = "ex_env (listUnspent ex_wallet) (Inr ''E'')"
  let ?st = "ex_state 100 False ex_pool"
  have wf: "pool_wf (receivable (pool ?st))"
    by code_simp
  have run: "onBlockConnected counter_rand ?env zero_hash 101 ?st = Running ex_after"
    by code_simp
  have pruned: "pruned_keys ?env (?st\<lparr>blockchainHeight := 101\<rparr>) = {''G''}"
    by code_simp
  have promoted: "promoted_keys ?st ex_after = {''F''}"
    by code_simp
  from prune_before_harvest [OF wf run] wf run pruned promoted
  show ?thesis by simp
qed





section \<open>The fee decision within a pass\<close>

text \<open>
  \<^verbatim>\<open>isFee\<close> depends on the nonce and the hash only through the seed, and on the
  generator only through the first draw from that seed.
\<close>

lemma isFee_depends_on_first_draw:
  assumes "nonce OR Int64 (SetBytes hash) = nonce' OR Int64 (SetBytes hash')"
    and "fst (Float64 lib (NewSource lib (nonce OR Int64 (SetBytes hash))))
           = fst (Float64 lib' (NewSource lib' (nonce OR Int64 (SetBytes hash))))"
  shows "isFee lib nonce hash feeBips = isFee lib' nonce' hash' feeBips"
  using assms by (simp add: isFee_def Let_def)

text \<open>
  The routing loop hands to the mix exactly the harvested chunks for which \<^verbatim>\<open>isFee\<close>
  returns false.
\<close>

lemma routeChunks_mix_set:
  assumes "routeChunks lib bh received items st = Returned st'"
  shows "\<exists>new. mix st' = mix st @ new \<and>
           set new = {m. ChunkItem m \<in> set items \<and> \<not> isFee lib (Nonce m) bh (Fee m)}"
  using assms
proof (induction items arbitrary: st)
  case Nil
  then show ?case by simp
next
  case (Cons item items)
  from Cons.prems obtain msg utxo where
    item: "item = ChunkItem msg" and
    utxo: "map_of received (MixAddr msg) = Some utxo"
    by (auto split: PoolItem.splits option.splits)
  show ?case
  proof (cases "isFee lib (Nonce msg) bh (Fee msg)")
    case True
    with Cons.prems item utxo have
      "routeChunks lib bh received items (st\<lparr>pool := Put Reserve (UtxoItem utxo) (pool st)\<rparr>)
         = Returned st'"
      by simp
    from Cons.IH [OF this] obtain new where
      new: "mix st' = mix st @ new"
        "set new = {m. ChunkItem m \<in> set items \<and> \<not> isFee lib (Nonce m) bh (Fee m)}"
      by auto
    from new(2) item True have
      "set new = {m. ChunkItem m \<in> set (item # items) \<and> \<not> isFee lib (Nonce m) bh (Fee m)}"
      by auto
    with new(1) show ?thesis by blast
  next
    case False
    with Cons.prems item utxo have
      "routeChunks lib bh received items
         (st\<lparr>pool := Put Mixing (UtxoItem utxo) (pool st), mix := mix st @ [msg]\<rparr>)
         = Returned st'"
      by simp
    from Cons.IH [OF this] obtain new where
      new: "mix st' = (mix st @ [msg]) @ new"
        "set new = {m. ChunkItem m \<in> set items \<and> \<not> isFee lib (Nonce m) bh (Fee m)}"
      by auto
    from new(1) have "mix st' = mix st @ (msg # new)" by simp
    moreover from new(2) item False have
      "set (msg # new) = {m. ChunkItem m \<in> set (item # items) \<and> \<not> isFee lib (Nonce m) bh (Fee m)}"
      by auto
    ultimately show ?thesis by blast
  qed
qed

lemma routeChunks_handed:
  assumes "routeChunks lib bh received items st = Returned st'"
    and "ChunkItem msg \<in> set items"
  shows "msg \<in> set (handed_to_mix st st') \<longleftrightarrow> \<not> isFee lib (Nonce msg) bh (Fee msg)"
proof -
  from routeChunks_mix_set [OF assms(1)] obtain new where
    new: "mix st' = mix st @ new"
      "set new = {m. ChunkItem m \<in> set items \<and> \<not> isFee lib (Nonce m) bh (Fee m)}"
    by blast
  from new(1) have "handed_to_mix st st' = new" by (simp add: handed_to_mix_def)
  with new(2) assms(2) show ?thesis by simp
qed

text \<open>
  C4. Two invocations of the fee decision with the same nonce, block hash and fee rate
  have the same outcome: both chunks are retained as a fee, or both are handed to the
  mix. Nothing else has a say: not the process-wide variables, not the other fields of
  the chunk, the other chunks of the pass or the utxos received, and of the generator
  only its first draw after seeding.
\<close>

theorem fee_decision_same_in_any_two_runs:
  assumes nonce: "Nonce msg = Nonce msg'" and fee: "Fee msg = Fee msg'"
    and agree: "\<forall>seed. fst (Float64 lib (NewSource lib seed)) = fst (Float64 lib' (NewSource lib' seed))"
    and run: "routeChunks lib blockHash received items st = Returned st1"
    and msg: "ChunkItem msg \<in> set items"
    and run': "routeChunks lib' blockHash received' items' st' = Returned st1'"
    and msg': "ChunkItem msg' \<in> set items'"
  shows "(isFee lib (Nonce msg) blockHash (Fee msg) \<and> isFee lib' (Nonce msg') blockHash (Fee msg') \<and>
          msg \<notin> set (handed_to_mix st st1) \<and> msg' \<notin> set (handed_to_mix st' st1')) \<or>
         (\<not> isFee lib (Nonce msg) blockHash (Fee msg) \<and> \<not> isFee lib' (Nonce msg') blockHash (Fee msg') \<and>
          msg \<in> set (handed_to_mix st st1) \<and> msg' \<in> set (handed_to_mix st' st1'))"
proof -
  from agree have "fst (Float64 lib (NewSource lib (Nonce msg OR Int64 (SetBytes blockHash))))
           = fst (Float64 lib' (NewSource lib' (Nonce msg OR Int64 (SetBytes blockHash))))"
    by blast
  from isFee_depends_on_first_draw [OF refl this, of "Fee msg"] nonce fee
  have same: "isFee lib (Nonce msg) blockHash (Fee msg) = isFee lib' (Nonce msg') blockHash (Fee msg')"
    by simp
  from routeChunks_handed [OF run msg] routeChunks_handed [OF run' msg'] same
  show ?thesis by blast
qed

theorem fee_decision_same_in_any_two_runs_witness:
  "routeChunks counter_rand zero_hash [(''E'', ex_utxo ''t2'' ''E'')]
     [ChunkItem ((ex_chunk ''E'' 100)\<lparr>Fee := 5000\<rparr>)] (ex_state 101 False [])
     = Returned ((ex_state 101 False [])
         \<lparr>pool := \<lparr>receivable = [], mixing = [],
                    reserve = [(''E'', UtxoItem (ex_utxo ''t2'' ''E''))]\<rparr>\<rparr>) \<and>
   routeChunks counter_rand zero_hash [(''F'', ex_utxo ''t3'' ''F''), (''G'', ex_utxo ''t9'' ''G'')]
     [ChunkItem (ex_chunk ''G'' 110), ChunkItem ((ex_chunk ''F'' 300)\<lparr>Fee := 5000\<rparr>)]
     (ex_state 250 True ex_pool)
     = Returned ((ex_state 250 True ex_pool)
         \<lparr>pool := \<lparr>receivable = ex_pool,
                    mixing = [(''G'', UtxoItem (ex_utxo ''t9'' ''G''))],
                    reserve = [(''F'', UtxoItem (ex_utxo ''t3'' ''F''))]\<rparr>,
          mix := [ex_chunk ''G'' 110]\<rparr>) \<and>
   isFee counter_rand (Nonce ((ex_chunk ''E'' 100)\<lparr>Fee := 5000\<rparr>)) zero_hash 5000 \<and>
   (ex_chunk ''E'' 100)\<lparr>Fee := 5000\<rparr> \<notin> set (handed_to_mix (ex_state 101 False [])
       ((ex_state 101 False [])
         \<lparr>pool := \<lparr>receivable = [], mixing = [],
                    reserve = [(''E'', UtxoItem (ex_utxo ''t2'' ''E''))]\<rparr>\<rparr>)) \<and>
   (ex_chunk ''F'' 300)\<lparr>Fee := 5000\<rparr> \<notin> set (handed_to_mix (ex_state 250 True ex_pool)
       ((ex_state 250 True ex_pool)
         \<lparr>pool := \<lparr>receivable = ex_pool,
                    mixing = [(''G'', UtxoItem (ex_utxo ''t9'' ''G''))],
                    reserve = [(''F'', UtxoItem (ex_utxo ''t3'' ''F''))]\<rparr>,
          mix := [ex_chunk ''G'' 110]\<rparr>))"
proof -
  let ?msg = "(ex_chunk ''E'' 100)\<lparr>Fee := 5000\<rparr>"
  let ?msg' = "(ex_chunk ''F'' 300)\<lparr>Fee := 5000\<rparr>"
  let ?st = "ex_state 101 False []"
  let ?st1 = "(ex_state 101 False [])
         \<lparr>pool := \<lparr>receivable = [], mixing = [],
                    reserve = [(''E'', UtxoItem (ex_utxo ''t2'' ''E''))]\<rparr>\<rparr>"
  let ?st' = "ex_state 250 True ex_pool"
  let ?st1' = "(ex_state 250 True ex_pool)
         \<lparr>pool := \<lparr>receivable = ex_pool,
                    mixing = [(''G'', UtxoItem (ex_utxo ''t9'' ''G''))],
                    reserve = [(''F'', UtxoItem (ex_utxo ''t3'' ''F''))]\<rparr>,
          mix := [ex_chunk ''G'' 110]\<rparr>"
  have nonce: "Nonce ?msg = Nonce ?msg'"
    by (simp add: ex_chunk_def ex_request_def)
  have fee: "Fee ?msg = Fee ?msg'"
    by simp
  have agree: "\<forall>seed. fst (Float64 counter_rand (NewSource counter_rand seed))
                 = fst (Float64 counter_rand (NewSource counter_rand seed))"
    by simp
  have run: "routeChunks counter_rand zero_hash [(''E'', ex_utxo ''t2'' ''E'')] [ChunkItem ?msg] ?st
               = Returned ?st1"
    by code_simp
  have run': "routeChunks counter_rand zero_hash
                [(''F'', ex_utxo ''t3'' ''F''), (''G'', ex_utxo ''t9'' ''G'')]
                [ChunkItem (ex_chunk ''G'' 110), ChunkItem ?msg'] ?st' = Returned ?st1'"
    by code_simp
  have msg: "ChunkItem ?msg \<in> set [ChunkItem ?msg]"
    by simp
  have msg': "ChunkItem ?msg' \<in> set [ChunkItem (ex_chunk ''G'' 110), ChunkItem ?msg']"
    by simp
  have retained: "isFee counter_rand (Nonce ?msg) zero_hash 5000"
    by code_simp
  from fee_decision_same_in_any_two_runs [OF nonce fee agree run msg run' msg'] retained run run'
  show ?thesis by simp
qed

section \<open>Properties of the delay\<close>

text \<open>
  With heights in the range of an \<^verbatim>\<open>int\<close>, the bound handed to \<^verbatim>\<open>randInt\<close> is
  \<open>returnBy - currHeight - 1\<close>, and the delay is whatever \<^verbatim>\<open>randInt\<close> returns for it.
\<close>

lemma go_int_id: "- (2 ^ 63) \<le> x \<Longrightarrow> x < 2 ^ 63 \<Longrightarrow> go_int x = x"
  by (simp add: go_int_def sint_sbintrunc' signed_take_bit_int_eq_self)

lemma generateDelay_bound:
  assumes "0 \<le> currHeight" "currHeight < 2 ^ 63" "0 < returnBy" "returnBy < 2 ^ 63"
  shows "generateDelay (Inr currHeight) randInt returnBy
           = Returned (randInt (returnBy - currHeight - 1))"
proof -
  from assms have a: "go_int (returnBy - 1) = returnBy - 1" by (intro go_int_id) simp_all
  from assms have b: "go_int (returnBy - 1 - currHeight) = returnBy - 1 - currHeight"
    by (intro go_int_id) simp_all
  have c: "returnBy - 1 - currHeight = returnBy - currHeight - 1" by simp
  have "generateDelay (Inr currHeight) randInt returnBy
          = Returned (randInt (go_int (go_int (returnBy - 1) - currHeight)))"
    by (simp add: generateDelay_def)
  also have "\<dots> = Returned (randInt (returnBy - 1 - currHeight))"
    by (simp only: a b)
  finally show ?thesis by (simp only: c)
qed

lemma generateDelay_height_error:
  "generateDelay (Inl err) randInt returnBy = Panicked (''error getting blockchain height: '' @ err)"
  by (simp add: generateDelay_def)

end
